theory Spec2Isabelle
  imports Main "HOL-Library.Word"
begin

unbundle bit_operations_syntax

section \<open>The dev-mode orchestrator of wails (v2/cmd/wails/internal/dev/dev.go)\<close>

text \<open>
  The embedding follows dev.go function by function. Every call that leaves the Go
  function (the builder, the process handle, the filesystem, the fsnotify watcher, HTTP,
  the logger) is written into a chronological trace of effects, and its answer is read
  from an environment record. Each answer may depend on the whole trace so far, so the
  environment can answer the same question differently at different moments.
  \<open>Logger.Fatal\<close> ends the process: a function that reaches it yields \<open>Fatal\<close>.
\<close>

subsection \<open>Strings (Go's strings and path/filepath, Unix separator)\<close>

text \<open>strings.HasPrefix: \<open>len(s) >= len(prefix) && s[:len(prefix)] == prefix\<close>.\<close>

definition HasPrefix :: "string \<Rightarrow> string \<Rightarrow> bool" where
  "HasPrefix s pre = (length pre \<le> length s \<and> take (length pre) s = pre)"

text \<open>strings.Contains: the substring occurs at some offset.\<close>

fun Contains :: "string \<Rightarrow> string \<Rightarrow> bool" where
  "Contains [] substr = HasPrefix [] substr"
| "Contains (c # s) substr = (HasPrefix (c # s) substr \<or> Contains s substr)"

text \<open>strings.Split with a one-character separator: \<open>Split("", ",")\<close> is \<open>[""]\<close>.\<close>

fun Split :: "string \<Rightarrow> char \<Rightarrow> string list" where
  "Split [] sep = [[]]"
| "Split (c # s) sep =
     (if c = sep then [] # Split s sep
      else (case Split s sep of [] \<Rightarrow> [[c]] | w # ws \<Rightarrow> (c # w) # ws))"

text \<open>strings.Join.\<close>

fun Join :: "string list \<Rightarrow> string \<Rightarrow> string" where
  "Join [] sep = []"
| "Join [a] sep = a"
| "Join (a # b # rest) sep = a @ sep @ Join (b # rest) sep"

text \<open>
  filepath.Ext: scan from the end of the path down to the last separator and return the
  suffix that starts at the first dot met; the counter \<open>Suc i\<close> stands for Go's index \<open>i\<close>.
\<close>

fun Ext_loop :: "string \<Rightarrow> nat \<Rightarrow> string" where
  "Ext_loop path 0 = []"
| "Ext_loop path (Suc i) =
     (if path ! i = CHR ''/'' then []
      else if path ! i = CHR ''.'' then drop i path
      else Ext_loop path i)"

definition Ext :: "string \<Rightarrow> string" where
  "Ext path = Ext_loop path (length path)"

text \<open>sliceToMap: the keys of the resulting \<open>map[string]struct{}\<close>.\<close>

fun sliceToMap :: "string list \<Rightarrow> string set" where
  "sliceToMap [] = {}"
| "sliceToMap (v # input) = insert v (sliceToMap input)"

subsection \<open>Data\<close>

text \<open>A Go \<open>error\<close>; \<open>errors.Is(err, os.ErrNotExist)\<close> is the test for the first constructor.\<close>

datatype error = ErrNotExist | Err string

fun Error :: "error \<Rightarrow> string" where
  "Error ErrNotExist = ''file does not exist''"
| "Error (Err msg) = msg"

text \<open>
  process.Process as dev.go uses it: the command it was made from, the \<open>Running\<close> field
  and the PID. A \<open>*process.Process\<close> is a \<open>process option\<close>, \<open>None\<close> for nil.
\<close>

record process =
  command :: string
  args :: "string list"
  Running :: bool
  PID :: int

text \<open>The fields of flags.Dev that dev.go reads after start-up.\<close>

record flags_Dev =
  AppArgs :: string
  LogLevel :: string
  AssetDir :: string
  DevServer :: string
  FrontendDevServerURL :: string
  DlvFlag :: string
  Extensions :: string
  ReloadDirs :: string
  NoGoRebuild :: bool
  NoReload :: bool

text \<open>The fields of build.Options that dev.go sets.\<close>

record build_Options =
  IgnoreFrontend :: bool
  IgnoreApplication :: bool

text \<open>An argument of a format string.\<close>

datatype arg = AStr string | AInt int

text \<open>One call that leaves dev.go, in the order the calls are made.\<close>

datatype effect =
    EBuild build_Options
  | EKill process
  | EStart process
  | EShlexSplit string
  | ESetenv string string
  | EFileExists string
  | EDeleteFile string
  | ERemove string
  | EDirExists string
  | EInitialiseWatcher string string
  | EWatcherAdd string
  | EWatcherClose
  | EKillProc string
  | ECancel
  | EHttpGet string
  | ETimerReset
  | ELog string "arg list"
  | EFatal string "arg list"

type_synonym trace = "effect list"

text \<open>
  The collaborators that are not part of dev.go. Each takes the trace so far.
  \<open>http_Get\<close> answers \<open>Inl\<close> when the request fails, \<open>Inr (Inl e)\<close> when reading the
  body fails and \<open>Inr (Inr body)\<close> otherwise. \<open>filepath_Dir\<close>, \<open>filepath_Abs\<close> and
  \<open>joinPath\<close> are the library functions of the same names.
\<close>

record env =
  build_Build :: "trace \<Rightarrow> build_Options \<Rightarrow> error + string"
  process_Kill :: "trace \<Rightarrow> process \<Rightarrow> error option"
  process_Start :: "trace \<Rightarrow> process \<Rightarrow> error + process"
  shlex_Split :: "string \<Rightarrow> error + string list"
  fs_FileExists :: "trace \<Rightarrow> string \<Rightarrow> bool"
  fs_DeleteFile :: "trace \<Rightarrow> string \<Rightarrow> error option"
  os_Remove :: "trace \<Rightarrow> string \<Rightarrow> error option"
  fs_DirExists :: "trace \<Rightarrow> string \<Rightarrow> bool"
  initialiseWatcher :: "trace \<Rightarrow> string \<Rightarrow> string \<Rightarrow> error option"
  watcher_Add :: "trace \<Rightarrow> string \<Rightarrow> error option"
  watcher_Close :: "trace \<Rightarrow> error option"
  http_Get :: "trace \<Rightarrow> string \<Rightarrow> error + (error + string)"
  filepath_Dir :: "string \<Rightarrow> string"
  filepath_Abs :: "string \<Rightarrow> error + string"
  joinPath :: "string \<Rightarrow> string \<Rightarrow> string"

text \<open>
  Modelled from the spec: \<open>Logger.Fatal\<close> of pkg/clilogger, which is not among the
  sources; the spec has fatal errors "terminate the process immediately (no graceful
  unwind)". A computation that reaches it is \<open>Fatal\<close> and nothing after it runs.
\<close>

datatype 'a outcome = Fatal | Return 'a

subsection \<open>killProcessAndCleanupBinary\<close>

definition killProcessAndCleanupBinary ::
  "env \<Rightarrow> process option \<Rightarrow> string \<Rightarrow> trace \<Rightarrow> error option \<times> trace" where
  "killProcessAndCleanupBinary e proc binary t =
     (case (case proc of
              None \<Rightarrow> (None, t)
            | Some p \<Rightarrow>
                if Running p then (process_Kill e t p, t @ [EKill p]) else (None, t)) of
        (Some err, t1) \<Rightarrow> (Some err, t1)
      | (None, t1) \<Rightarrow>
          if binary \<noteq> [] then
            (case os_Remove e t1 binary of
               None \<Rightarrow> (None, t1 @ [ERemove binary])
             | Some err \<Rightarrow>
                 if err \<noteq> ErrNotExist then (Some err, t1 @ [ERemove binary])
                 else (None, t1 @ [ERemove binary]))
          else (None, t1))"

subsection \<open>restartApp\<close>

text \<open>
  The launch command and its arguments (lines 314 to 325). With a debugger wrapper the
  assignment of line 322 is overwritten by line 324, so the arguments are \<open>newArgs\<close>,
  which ends in the separator when application arguments were given.
\<close>

definition launchCommand :: "flags_Dev \<Rightarrow> string \<Rightarrow> string list \<Rightarrow> string \<times> string list" where
  "launchCommand f appBinary args0 =
     (if length (DlvFlag f) = 0 then (appBinary, args0)
      else
        (let newArgs = Split (DlvFlag f) CHR '' '' @ [''exec'', appBinary];
             newArgs = (if length args0 > 0 then newArgs @ [''--''] else newArgs)
         in (''dlv'', newArgs)))"

text \<open>Lines 327 to 341: start the new binary; a start failure is fatal.\<close>

definition startNew ::
  "env \<Rightarrow> flags_Dev \<Rightarrow> string \<Rightarrow> string list \<Rightarrow> trace
     \<Rightarrow> (process option \<times> string \<times> error option) outcome \<times> trace" where
  "startNew e f appBinary args0 t =
     (let (cmd, as) = launchCommand f appBinary args0;
          t1 = t @ [ELog (''Executing: '' @ cmd @ '' '' @ Join as '' '') []];
          newProcess = \<lparr>command = cmd, args = as, Running = False, PID = 0\<rparr>
      in case process_Start e t1 newProcess of
           Inr started \<Rightarrow> (Return (Some started, appBinary, None), t1 @ [EStart newProcess])
         | Inl err \<Rightarrow>
             (let t2 = t1 @ [EStart newProcess];
                  ex = fs_FileExists e t2 appBinary;
                  t3 = t2 @ [EFileExists appBinary]
              in if ex then
                   (case fs_DeleteFile e t3 appBinary of
                      Some deleteError \<Rightarrow>
                        (Fatal, t3 @ [EDeleteFile appBinary,
                                      EFatal (''Unable to delete app binary: '' @ appBinary) []])
                    | None \<Rightarrow>
                        (Fatal, t3 @ [EDeleteFile appBinary,
                                      EFatal ''Unable to start application: %s'' [AStr (Error err)]]))
                 else (Fatal, t3 @ [EFatal ''Unable to start application: %s'' [AStr (Error err)]])))"

text \<open>Lines 300 to 310: parse the application arguments and export the environment.\<close>

definition prepareAndStart ::
  "env \<Rightarrow> flags_Dev \<Rightarrow> string \<Rightarrow> trace
     \<Rightarrow> (process option \<times> string \<times> error option) outcome \<times> trace" where
  "prepareAndStart e f appBinary t =
     (case shlex_Split e (AppArgs f) of
        Inl err \<Rightarrow>
          (Fatal, t @ [EShlexSplit (AppArgs f),
                       EFatal ''Unable to parse appargs: %s'' [AStr (Error err)]])
      | Inr args0 \<Rightarrow>
          startNew e f appBinary args0
            (t @ [EShlexSplit (AppArgs f),
                  ESetenv ''loglevel'' (LogLevel f),
                  ESetenv ''assetdir'' (AssetDir f),
                  ESetenv ''devserver'' (DevServer f),
                  ESetenv ''frontenddevserverurl'' (FrontendDevServerURL f)]))"

definition restartApp ::
  "env \<Rightarrow> build_Options \<Rightarrow> process option \<Rightarrow> flags_Dev \<Rightarrow> trace
     \<Rightarrow> (process option \<times> string \<times> error option) outcome \<times> trace" where
  "restartApp e buildOptions debugBinaryProcess f t =
     (case build_Build e t buildOptions of
        Inl err \<Rightarrow>
          (let msg = (if debugBinaryProcess = None
                      then ''No version running, build will be retriggered as soon as changes have been detected''
                      else ''Continuing to run current version'')
           in (Return (None, [], None),
               t @ [EBuild buildOptions, ELog (''Build error - '' @ Error err) [], ELog msg []]))
      | Inr appBinary \<Rightarrow>
          (case debugBinaryProcess of
             None \<Rightarrow> prepareAndStart e f appBinary (t @ [EBuild buildOptions])
           | Some p \<Rightarrow>
               (case process_Kill e (t @ [EBuild buildOptions]) p of
                  Some killError \<Rightarrow>
                    (Fatal, t @ [EBuild buildOptions, EKill p,
                                 EFatal ''Unable to kill debug binary (PID: %d)!'' [AInt (PID p)]])
                | None \<Rightarrow> prepareAndStart e f appBinary (t @ [EBuild buildOptions, EKill p]))))"

subsection \<open>doWatcherLoop\<close>

text \<open>
  fsnotify.Op is a \<open>uint32\<close> bit mask; the constants are those of the fsnotify library
  (\<open>Create Op = 1 << iota\<close>, then \<open>Write\<close>). One event may carry several bits.
\<close>

type_synonym Op = "32 word"

definition Create :: Op where "Create = 1"
definition Write :: Op where "Write = 2"

text \<open>
  What one \<open>select\<close> of the main loop can receive. When the debounce timer fires is
  decided outside the loop: the firing is one of the events, and \<open>timer.Reset\<close> is
  recorded in the trace.
\<close>

datatype event =
    ExitCode int
  | WatcherError error
  | WatcherEvent Op string
  | TimerC
  | QuitSignal

text \<open>The variables the loop declares before \<open>for !quit\<close> and changes inside it.\<close>

record loop_state =
  quit :: bool
  rebuild :: bool
  reload :: bool
  assetDir :: string
  changedPaths :: "string set"
  debugBinaryProcess :: "process option"

text \<open>What the loop computes once before \<open>for !quit\<close> and only reads afterwards.\<close>

record loop_config =
  buildOptions :: build_Options
  flags :: flags_Dev
  extensionsThatTriggerARebuild :: "string set"
  dirsThatTriggerAReload :: "string list"
  skipAssetsReload :: bool
  assetDirURL :: string
  reloadURL :: string

text \<open>The closure \<open>isEligibleFile\<close> (lines 406 to 416).\<close>

definition isEligibleFile :: "loop_config \<Rightarrow> string \<Rightarrow> bool" where
  "isEligibleFile c fileName =
     (let ext = Ext fileName
      in if ext \<noteq> [] then
           (let ext = drop 1 ext
            in if ext \<in> extensionsThatTriggerARebuild c then True else False)
         else False)"

text \<open>The loop over the reload directories with its \<open>break\<close> (lines 432 to 437).\<close>

fun matchReloadDirs :: "string \<Rightarrow> string list \<Rightarrow> bool \<Rightarrow> bool" where
  "matchReloadDirs itemName [] reload0 = reload0"
| "matchReloadDirs itemName (reloadDir # dirs) reload0 =
     (if HasPrefix itemName reloadDir then True else matchReloadDirs itemName dirs reload0)"

text \<open>
  The two blocks of the event case end either in \<open>continue\<close>, which starts the next
  iteration at once, or by falling through to what follows.
\<close>

datatype 'a flow = Continue 'a | Next 'a

text \<open>Lines 419 to 444: write operations.\<close>

definition handleWrite ::
  "env \<Rightarrow> loop_config \<Rightarrow> Op \<Rightarrow> string \<Rightarrow> loop_state \<Rightarrow> trace
     \<Rightarrow> loop_state flow \<times> trace" where
  "handleWrite e c op itemName s t =
     (if op AND Write = Write then
        (if fs_DirExists e t itemName then (Continue s, t @ [EDirExists itemName])
         else if isEligibleFile c itemName then
           (Continue (s\<lparr>rebuild := True\<rparr>), t @ [EDirExists itemName, ETimerReset])
         else
           (let s1 = s\<lparr>reload := matchReloadDirs itemName (dirsThatTriggerAReload c) (reload s)\<rparr>;
                s2 = (if \<not> reload s1
                      then s1\<lparr>changedPaths := insert (filepath_Dir e itemName) (changedPaths s1)\<rparr>
                      else s1)
            in (Next s2, t @ [EDirExists itemName, ETimerReset])))
      else (Next s, t))"

text \<open>Lines 447 to 467: new file system entries.\<close>

definition handleCreate ::
  "env \<Rightarrow> loop_config \<Rightarrow> Op \<Rightarrow> string \<Rightarrow> loop_state \<Rightarrow> trace
     \<Rightarrow> loop_state outcome \<times> trace" where
  "handleCreate e c op itemName s t =
     (if op AND Create = Create then
        (if fs_DirExists e t itemName then
           (if \<not> Contains itemName ''node_modules'' then
              (case watcher_Add e (t @ [EDirExists itemName]) itemName of
                 Some err \<Rightarrow>
                   (Fatal, t @ [EDirExists itemName, EWatcherAdd itemName,
                                EFatal ''%s'' [AStr (Error err)]])
               | None \<Rightarrow>
                   (Return s, t @ [EDirExists itemName, EWatcherAdd itemName,
                                   ELog ''Added new directory to watcher: %s'' [AStr itemName]]))
            else (Return s, t @ [EDirExists itemName]))
         else if isEligibleFile c itemName then
           (Return (s\<lparr>rebuild := True\<rparr>), t @ [EDirExists itemName, ETimerReset])
         else (Return s, t @ [EDirExists itemName]))
      else (Return s, t))"

definition handleEvent ::
  "env \<Rightarrow> loop_config \<Rightarrow> Op \<Rightarrow> string \<Rightarrow> loop_state \<Rightarrow> trace
     \<Rightarrow> loop_state outcome \<times> trace" where
  "handleEvent e c op itemName s t =
     (case handleWrite e c op itemName s t of
        (Continue s1, t1) \<Rightarrow> (Return s1, t1)
      | (Next s1, t1) \<Rightarrow> handleCreate e c op itemName s1 t1)"

text \<open>Lines 469 to 487: the rebuild, when one is pending.\<close>

definition tickRebuild ::
  "env \<Rightarrow> loop_config \<Rightarrow> loop_state \<Rightarrow> trace \<Rightarrow> loop_state flow outcome \<times> trace" where
  "tickRebuild e c s t =
     (if rebuild s then
        (let s1 = s\<lparr>rebuild := False\<rparr>
         in if NoGoRebuild (flags c) then
              (Return (Next s1),
               t @ [ELog ''[Rebuild triggered] skipping due to flag -nogorebuild'' []])
            else
              (case restartApp e (buildOptions c) (debugBinaryProcess s1) (flags c)
                      (t @ [ELog ''[Rebuild triggered] files updated'' []]) of
                 (Fatal, t1) \<Rightarrow> (Fatal, t1)
               | (Return (newBinaryProcess, appBinary, Some err), t1) \<Rightarrow>
                   (Return (Continue s1),
                    t1 @ [ELog ''Error during build: %s'' [AStr (Error err)]])
               | (Return (newBinaryProcess, appBinary, None), t1) \<Rightarrow>
                   (if newBinaryProcess \<noteq> None
                    then (Return (Next (s1\<lparr>debugBinaryProcess := newBinaryProcess\<rparr>)), t1)
                    else (Return (Next s1), t1))))
      else (Return (Next s), t))"

text \<open>Lines 489 to 515: correlate the changed directories with the asset directory.\<close>

definition resolveAssetDir :: "env \<Rightarrow> loop_config \<Rightarrow> loop_state \<Rightarrow> trace \<Rightarrow> loop_state \<times> trace" where
  "resolveAssetDir e c s t =
     (if assetDir s = [] then
        (case http_Get e t (assetDirURL c) of
           Inl err \<Rightarrow>
             (s, t @ [EHttpGet (assetDirURL c),
                      ELog ''Error during retrieving assetdir: %s'' [AStr (Error err)]])
         | Inr (Inl err) \<Rightarrow>
             (s, t @ [EHttpGet (assetDirURL c),
                      ELog ''Error reading assetdir from devserver: %s'' [AStr (Error err)]])
         | Inr (Inr content) \<Rightarrow> (s\<lparr>assetDir := content\<rparr>, t @ [EHttpGet (assetDirURL c)]))
      else (s, t))"

definition tickAssets :: "env \<Rightarrow> loop_config \<Rightarrow> loop_state \<Rightarrow> trace \<Rightarrow> loop_state \<times> trace" where
  "tickAssets e c s t =
     (if \<not> skipAssetsReload c \<and> changedPaths s \<noteq> {} then
        (let (s1, t1) = resolveAssetDir e c s t
         in if assetDir s1 \<noteq> [] then
              (if \<exists>thePath \<in> changedPaths s1. HasPrefix thePath (assetDir s1)
               then (s1\<lparr>reload := True\<rparr>, t1) else (s1, t1))
            else if length (dirsThatTriggerAReload c) = 0 then
              (s1, t1 @ [ELog ''Reloading couldn't be triggered: Please specify -assetdir or -reloaddirs'' []])
            else (s1, t1))
      else (s, t))"

text \<open>Lines 516 to 523: the reload request, then the batch is emptied.\<close>

definition tickReload :: "env \<Rightarrow> loop_config \<Rightarrow> loop_state \<Rightarrow> trace \<Rightarrow> loop_state \<times> trace" where
  "tickReload e c s t =
     (let (s1, t1) =
            (if reload s then
               (case http_Get e t (reloadURL c) of
                  Inl err \<Rightarrow>
                    (s\<lparr>reload := False\<rparr>,
                     t @ [EHttpGet (reloadURL c), ELog ''Error during refresh: %s'' [AStr (Error err)]])
                | Inr resp \<Rightarrow> (s\<lparr>reload := False\<rparr>, t @ [EHttpGet (reloadURL c)]))
             else (s, t))
      in (s1\<lparr>changedPaths := {}\<rparr>, t1))"

definition timerTick ::
  "env \<Rightarrow> loop_config \<Rightarrow> loop_state \<Rightarrow> trace \<Rightarrow> loop_state outcome \<times> trace" where
  "timerTick e c s t =
     (case tickRebuild e c s t of
        (Fatal, t1) \<Rightarrow> (Fatal, t1)
      | (Return (Continue s1), t1) \<Rightarrow> (Return s1, t1)
      | (Return (Next s1), t1) \<Rightarrow>
          (let (s2, t2) = tickAssets e c s1 t1;
               (s3, t3) = tickReload e c s2 t2
           in (Return s3, t3)))"

text \<open>One iteration of \<open>for !quit { select { ... } }\<close> on the event the select received.\<close>

fun loopIteration ::
  "env \<Rightarrow> loop_config \<Rightarrow> event \<Rightarrow> loop_state \<Rightarrow> trace \<Rightarrow> loop_state outcome \<times> trace" where
  "loopIteration e c (ExitCode exitCode) s t =
     (if exitCode = 0 then (Return (s\<lparr>quit := True\<rparr>), t) else (Return s, t))"
| "loopIteration e c (WatcherError err) s t = (Return s, t @ [ELog (Error err) []])"
| "loopIteration e c (WatcherEvent op itemName) s t = handleEvent e c op itemName s t"
| "loopIteration e c TimerC s t = timerTick e c s t"
| "loopIteration e c QuitSignal s t =
     (Return (s\<lparr>quit := True\<rparr>), t @ [ELog [CHR 0x0A, CHR ''C'', CHR ''a'', CHR ''u'', CHR ''g'', CHR ''h'', CHR ''t'', CHR '' '', CHR ''q'', CHR ''u'', CHR ''i'', CHR ''t''] []])"

text \<open>
  The loop on the events the select receives, in their order. It leaves when \<open>quit\<close> is
  set, ends with the process on \<open>Logger.Fatal\<close>, and otherwise blocks in the select once
  the events are used up.
\<close>

datatype loop_result = Exited loop_state | Halted | Waiting loop_state

fun mainLoop ::
  "env \<Rightarrow> loop_config \<Rightarrow> event list \<Rightarrow> loop_state \<Rightarrow> trace \<Rightarrow> loop_result \<times> trace" where
  "mainLoop e c [] s t = (if quit s then Exited s else Waiting s, t)"
| "mainLoop e c (ev # evs) s t =
     (if quit s then (Exited s, t)
      else (case loopIteration e c ev s t of
              (Fatal, t1) \<Rightarrow> (Halted, t1)
            | (Return s1, t1) \<Rightarrow> mainLoop e c evs s1 t1))"

text \<open>Lines 365 to 381: the directories that trigger a reload are collected and watched.\<close>

fun collectReloadDirs :: "env \<Rightarrow> string list \<Rightarrow> string list \<Rightarrow> trace \<Rightarrow> string list \<times> trace" where
  "collectReloadDirs e [] acc t = (acc, t)"
| "collectReloadDirs e (dir # dirs) acc t =
     (if dir = [] then collectReloadDirs e dirs acc t
      else
        (case filepath_Abs e dir of
           Inl err \<Rightarrow>
             collectReloadDirs e dirs acc
               (t @ [ELog ''Unable to expand reloadDir '%s': %s'' [AStr dir, AStr (Error err)]])
         | Inr thePath \<Rightarrow>
             (case watcher_Add e t thePath of
                Some err \<Rightarrow>
                  collectReloadDirs e dirs (acc @ [thePath])
                    (t @ [EWatcherAdd thePath,
                          ELog ''Unable to watch path: %s due to error %v'' [AStr thePath, AStr (Error err)]])
              | None \<Rightarrow>
                  collectReloadDirs e dirs (acc @ [thePath])
                    (t @ [EWatcherAdd thePath,
                          ELog ''Watching (sub)/directory: %s'' [AStr thePath]]))))"

text \<open>Lines 383 to 395: the state and the configuration the loop starts with.\<close>

definition initialState :: "process option \<Rightarrow> loop_state" where
  "initialState proc =
     \<lparr>quit = False, rebuild = False, reload = False, assetDir = [], changedPaths = {},
      debugBinaryProcess = proc\<rparr>"

definition makeConfig ::
  "env \<Rightarrow> build_Options \<Rightarrow> flags_Dev \<Rightarrow> string \<Rightarrow> string list \<Rightarrow> loop_config" where
  "makeConfig e opts f devServerURL dirs =
     \<lparr>buildOptions = opts, flags = f,
      extensionsThatTriggerARebuild = sliceToMap (Split (Extensions f) CHR '',''),
      dirsThatTriggerAReload = dirs,
      skipAssetsReload = (FrontendDevServerURL f \<noteq> [] \<or> NoReload f),
      assetDirURL = joinPath e devServerURL ''/wails/assetdir'',
      reloadURL = joinPath e devServerURL ''/wails/reload''\<rparr>"

text \<open>
  doWatcherLoop on the events its selects receive. The deferred \<open>watcher.Close\<close> runs
  when the function returns after the loop; its failure ends the process (\<open>log.Fatal\<close>).
\<close>

datatype watcher_result =
    Returned "process option" "error option"
  | Terminated
  | Blocked loop_state

definition doWatcherLoop ::
  "env \<Rightarrow> string \<Rightarrow> string \<Rightarrow> build_Options \<Rightarrow> process option \<Rightarrow> flags_Dev \<Rightarrow> string
     \<Rightarrow> event list \<Rightarrow> trace \<Rightarrow> watcher_result \<times> trace" where
  "doWatcherLoop e cwd reloadDirs opts proc f devServerURL evs t =
     (case initialiseWatcher e t cwd reloadDirs of
        Some err \<Rightarrow>
          (Returned None (Some err),
           t @ [EInitialiseWatcher cwd reloadDirs,
                ELog ''Unable to create filesystem watcher. Reloads will not occur.'' []])
      | None \<Rightarrow>
          (let (dirs, t1) =
                 collectReloadDirs e (Split (ReloadDirs f) CHR '','') []
                   (t @ [EInitialiseWatcher cwd reloadDirs,
                         ELog ''Watching (sub)/directory: %s'' [AStr cwd]])
           in case mainLoop e (makeConfig e opts f devServerURL dirs) evs (initialState proc) t1 of
                (Halted, t2) \<Rightarrow> (Terminated, t2)
              | (Waiting s, t2) \<Rightarrow> (Blocked s, t2)
              | (Exited s, t2) \<Rightarrow>
                  (case watcher_Close e t2 of
                     Some err \<Rightarrow> (Terminated, t2 @ [EWatcherClose, EFatal (Error err) []])
                   | None \<Rightarrow> (Returned (debugBinaryProcess s) None, t2 @ [EWatcherClose]))))"

subsection \<open>runFrontendDevWatcherCommand: the closer and the exit watcher\<close>

text \<open>
  Lines 245 to 271. The variable \<open>state\<close> is shared by the goroutine that waits for the
  command and by every invocation of the returned closer, and is only touched through
  atomic operations. The model interleaves the atomic steps of these threads: a schedule
  names, step by step, the thread that runs next. A thread that is blocked or has
  finished does nothing when it is named.
\<close>

definition stateRunning :: "32 word" where "stateRunning = 0"
definition stateCanceling :: "32 word" where "stateCanceling = 1"
definition stateStopped :: "32 word" where "stateStopped = 2"

text \<open>Where an invocation of the closer stands (lines 266 to 270).\<close>

datatype closer_pc = AtCompareAndSwap | AtKillProc | AtCancel | AtWgWait | CloserDone

text \<open>Where the goroutine stands (lines 255 to 262); \<open>AtLog\<close> holds \<open>wasRunning\<close>.\<close>

datatype waiter_pc =
  AtCmdWait | AtCompareAndSwapStopped | AtLog bool | AtStore | AtWgDone | WaiterDone

record watcher_system =
  state :: "32 word"
  wg :: nat
  effects :: trace
  waiter :: waiter_pc
  closers :: "closer_pc list"

datatype thread = ExitWatcher | Closer nat

definition closerStep :: "string \<Rightarrow> nat \<Rightarrow> watcher_system \<Rightarrow> watcher_system" where
  "closerStep devCommand i w =
     (if i < length (closers w) then
        (case closers w ! i of
           AtCompareAndSwap \<Rightarrow>
             (if state w = stateRunning
              then w\<lparr>state := stateCanceling, closers := (closers w)[i := AtKillProc]\<rparr>
              else w\<lparr>closers := (closers w)[i := AtCancel]\<rparr>)
         | AtKillProc \<Rightarrow>
             w\<lparr>effects := effects w @ [EKillProc devCommand],
               closers := (closers w)[i := AtCancel]\<rparr>
         | AtCancel \<Rightarrow>
             w\<lparr>effects := effects w @ [ECancel], closers := (closers w)[i := AtWgWait]\<rparr>
         | AtWgWait \<Rightarrow>
             (if wg w = 0 then w\<lparr>closers := (closers w)[i := CloserDone]\<rparr> else w)
         | CloserDone \<Rightarrow> w)
      else w)"

text \<open>\<open>waitErr\<close> is what \<open>cmd.Wait()\<close> returns when the command has ended.\<close>

definition waiterStep :: "string \<Rightarrow> error option \<Rightarrow> watcher_system \<Rightarrow> watcher_system" where
  "waiterStep devCommand waitErr w =
     (case waiter w of
        AtCmdWait \<Rightarrow>
          (if waitErr \<noteq> None then w\<lparr>waiter := AtCompareAndSwapStopped\<rparr>
           else w\<lparr>waiter := AtStore\<rparr>)
      | AtCompareAndSwapStopped \<Rightarrow>
          (if state w = stateRunning
           then w\<lparr>state := stateStopped, waiter := AtLog True\<rparr>
           else w\<lparr>waiter := AtLog False\<rparr>)
      | AtLog wasRunning \<Rightarrow>
          (case waitErr of
             Some err \<Rightarrow>
               (if Error err \<noteq> ''exit status 1'' \<and> wasRunning
                then w\<lparr>effects := effects w @
                         [ELog ''Error from DevWatcher '%s': %s'' [AStr devCommand, AStr (Error err)]],
                       waiter := AtStore\<rparr>
                else w\<lparr>waiter := AtStore\<rparr>)
           | None \<Rightarrow> w\<lparr>waiter := AtStore\<rparr>)
      | AtStore \<Rightarrow> w\<lparr>state := stateStopped, waiter := AtWgDone\<rparr>
      | AtWgDone \<Rightarrow> w\<lparr>wg := wg w - 1, waiter := WaiterDone\<rparr>
      | WaiterDone \<Rightarrow> w)"

fun threadStep :: "string \<Rightarrow> error option \<Rightarrow> thread \<Rightarrow> watcher_system \<Rightarrow> watcher_system" where
  "threadStep devCommand waitErr ExitWatcher w = waiterStep devCommand waitErr w"
| "threadStep devCommand waitErr (Closer i) w = closerStep devCommand i w"

fun runSchedule ::
  "string \<Rightarrow> error option \<Rightarrow> thread list \<Rightarrow> watcher_system \<Rightarrow> watcher_system" where
  "runSchedule devCommand waitErr [] w = w"
| "runSchedule devCommand waitErr (th # sched) w =
     runSchedule devCommand waitErr sched (threadStep devCommand waitErr th w)"

text \<open>
  The system when runFrontendDevWatcherCommand returns: \<open>state\<close> is \<open>stateRunning\<close>,
  \<open>wg.Add(1)\<close> has run, the goroutine waits for the command, and \<open>n\<close> invocations of the
  closer are about to start.
\<close>

definition watcherStart :: "nat \<Rightarrow> watcher_system" where
  "watcherStart n =
     \<lparr>state = stateRunning, wg = 1, effects = [], waiter = AtCmdWait,
      closers = replicate n AtCompareAndSwap\<rparr>"

text \<open>How often the termination signal was sent.\<close>

definition killProcCalls :: "trace \<Rightarrow> nat" where
  "killProcCalls t = length (filter (\<lambda>x. case x of EKillProc d \<Rightarrow> True | _ \<Rightarrow> False) t)"

subsection \<open>Reading a trace\<close>

fun isBuild :: "effect \<Rightarrow> bool" where
  "isBuild (EBuild opts) = True"
| "isBuild x = False"

fun isHttpGet :: "effect \<Rightarrow> bool" where
  "isHttpGet (EHttpGet url) = True"
| "isHttpGet x = False"

fun isKill :: "effect \<Rightarrow> bool" where
  "isKill (EKill p) = True"
| "isKill x = False"

fun isStart :: "effect \<Rightarrow> bool" where
  "isStart (EStart p) = True"
| "isStart x = False"

text \<open>
The calls the asset and reload steps of a tick can make.
\<close>

definition isHttpOrLog :: "effect \<Rightarrow> bool" where
  "isHttpOrLog x = (case x of EHttpGet u \<Rightarrow> True | ELog m a \<Rightarrow> True | _ \<Rightarrow> False)"

text \<open>
How often the builder was invoked.
\<close>

definition buildCalls :: "trace \<Rightarrow> nat" where
  "buildCalls t = length (filter isBuild t)"

text \<open>
The paths handed to \<open>watcher.Add\<close>, in their order.
\<close>

fun watcherAdds :: "trace \<Rightarrow> string list" where
  "watcherAdds [] = []"
| "watcherAdds (EWatcherAdd n # t) = n # watcherAdds t"
| "watcherAdds (x # t) = watcherAdds t"

text \<open>
  The invocations of the closer whose compare-and-swap has succeeded and whose call of
  killProc is still to come.
\<close>

definition inFlight :: "closer_pc list \<Rightarrow> nat" where
  "inFlight cs = length (filter (\<lambda>pc. pc = AtKillProc) cs)"

text \<open>
  The invariant of the closer: signals sent and signals about to be sent are at most one
  together, and there is none while \<open>state\<close> is still \<open>stateRunning\<close>.
\<close>

definition signalOnce :: "watcher_system \<Rightarrow> bool" where
  "signalOnce w =
     (killProcCalls (effects w) + inFlight (closers w) \<le> 1
      \<and> (state w = stateRunning \<longrightarrow> killProcCalls (effects w) + inFlight (closers w) = 0))"

subsection \<open>Example inputs\<close>

text \<open>
  An environment in which every collaborator succeeds and no path is a directory.
  \<open>parentDir\<close> stands for filepath.Dir on clean slash-separated paths with at least two
  elements, the only ones the examples use.
\<close>

definition parentDir :: "string \<Rightarrow> string" where
  "parentDir path = rev (drop 1 (dropWhile (\<lambda>ch. ch \<noteq> CHR ''/'') (rev path)))"

definition calmEnv :: env where
  "calmEnv =
     \<lparr>build_Build = (\<lambda>t opts. Inr ''/p/bin/app''),
      process_Kill = (\<lambda>t p. None),
      process_Start = (\<lambda>t p. Inr (p\<lparr>Running := True, PID := 4242\<rparr>)),
      shlex_Split = (\<lambda>line. Inr (filter (\<lambda>w. w \<noteq> []) (Split line CHR '' ''))),
      fs_FileExists = (\<lambda>t path. True),
      fs_DeleteFile = (\<lambda>t path. None),
      os_Remove = (\<lambda>t path. None),
      fs_DirExists = (\<lambda>t path. False),
      initialiseWatcher = (\<lambda>t cwd dirs. None),
      watcher_Add = (\<lambda>t path. None),
      watcher_Close = (\<lambda>t. None),
      http_Get = (\<lambda>t url. Inr (Inr ''/p/dist'')),
      filepath_Dir = parentDir,
      filepath_Abs = (\<lambda>dir. Inr dir),
      joinPath = (\<lambda>url subPath. url @ subPath)\<rparr>"

text \<open>
The builder fails.
\<close>

definition failingBuildEnv :: env where
  "failingBuildEnv = calmEnv\<lparr>build_Build := (\<lambda>t opts. Inl (Err ''exit status 2''))\<rparr>"


text \<open>
Every path is a directory and \<open>watcher.Add\<close> fails.
\<close>

definition failingAddEnv :: env where
  "failingAddEnv = calmEnv\<lparr>fs_DirExists := (\<lambda>t path. True),
                            watcher_Add := (\<lambda>t path. Some (Err ''no space left on device''))\<rparr>"

text \<open>
A project that rebuilds on \<open>go\<close> files and reloads on changes under \<open>/p/src\<close>.
\<close>

definition devFlags :: flags_Dev where
  "devFlags =
     \<lparr>AppArgs = [], LogLevel = ''Info'', AssetDir = [], DevServer = ''localhost:34115'',
      FrontendDevServerURL = [], DlvFlag = [], Extensions = ''go'', ReloadDirs = ''/p/src'',
      NoGoRebuild = False, NoReload = False\<rparr>"

definition devOptions :: build_Options where
  "devOptions = \<lparr>IgnoreFrontend = True, IgnoreApplication = False\<rparr>"

definition devConfig :: "flags_Dev \<Rightarrow> loop_config" where
  "devConfig f = makeConfig calmEnv devOptions f ''http://localhost:34115'' [''/p/src'']"

definition oldApp :: process where
  "oldApp = \<lparr>command = ''/p/bin/app'', args = [], Running = True, PID = 1001\<rparr>"

section \<open>Properties\<close>

subsection \<open>Auxiliary facts: the calls of restartApp and of a tick\<close>

lemma devConfig_simps:
  "flags (devConfig f) = f"
  "buildOptions (devConfig f) = devOptions"
  "dirsThatTriggerAReload (devConfig f) = [''/p/src'']"
  "extensionsThatTriggerARebuild (devConfig f) = sliceToMap (Split (Extensions f) CHR '','')"
  "skipAssetsReload (devConfig f) = (FrontendDevServerURL f \<noteq> [] \<or> NoReload f)"
  by (simp_all add: devConfig_def makeConfig_def)

lemma restartApp_build_fails:
  assumes "build_Build e t opts = Inl err"
  shows "\<exists>m. restartApp e opts proc f t =
           (Return (None, [], None), t @ [EBuild opts, ELog (''Build error - '' @ Error err) [], ELog m []])"
  using assms by (simp add: restartApp_def)

lemma restartApp_no_error:
  "restartApp e opts proc f t \<noteq> (Return (np, b, Some err), t')"
  by (auto simp: restartApp_def prepareAndStart_def startNew_def Let_def
           split: sum.splits option.splits prod.splits if_splits)

lemma startNew_delta:
  "\<exists>d. snd (startNew e f b as t) = t @ d \<and> \<not> list_ex isBuild d \<and> \<not> list_ex isHttpGet d"
  by (auto simp: startNew_def Let_def split: prod.splits sum.splits option.splits)

lemma prepareAndStart_delta:
  "\<exists>d. snd (prepareAndStart e f b t) = t @ d \<and> \<not> list_ex isBuild d \<and> \<not> list_ex isHttpGet d"
proof (cases "shlex_Split e (AppArgs f)")
  case (Inl err)
  then show ?thesis by (simp add: prepareAndStart_def)
next
  case (Inr as)
  obtain d where d: "snd (startNew e f b as (t @ [EShlexSplit (AppArgs f),
                  ESetenv ''loglevel'' (LogLevel f),
                  ESetenv ''assetdir'' (AssetDir f),
                  ESetenv ''devserver'' (DevServer f),
                  ESetenv ''frontenddevserverurl'' (FrontendDevServerURL f)])) = (t @ [EShlexSplit (AppArgs f),
                  ESetenv ''loglevel'' (LogLevel f),
                  ESetenv ''assetdir'' (AssetDir f),
                  ESetenv ''devserver'' (DevServer f),
                  ESetenv ''frontenddevserverurl'' (FrontendDevServerURL f)]) @ d"
     "\<not> list_ex isBuild d" "\<not> list_ex isHttpGet d"
    using startNew_delta by blast
  show ?thesis using Inr d by (simp add: prepareAndStart_def)
qed

lemma restartApp_delta:
  "\<exists>d. snd (restartApp e opts proc f t) = t @ d \<and> buildCalls d = 1 \<and> \<not> list_ex isHttpGet d"
proof (cases "build_Build e t opts")
  case (Inl err)
  then show ?thesis by (simp add: restartApp_def buildCalls_def)
next
  case (Inr b)
  show ?thesis
  proof (cases proc)
    case None
    obtain d where "snd (prepareAndStart e f b (t @ [EBuild opts])) = (t @ [EBuild opts]) @ d"
      "\<not> list_ex isBuild d" "\<not> list_ex isHttpGet d"
      using prepareAndStart_delta by blast
    then show ?thesis using Inr None
      by (simp add: restartApp_def buildCalls_def list_ex_iff filter_empty_conv[THEN iffD2])
  next
    case (Some p)
    show ?thesis
    proof (cases "process_Kill e (t @ [EBuild opts]) p")
      case None
      obtain d where "snd (prepareAndStart e f b (t @ [EBuild opts, EKill p])) = (t @ [EBuild opts, EKill p]) @ d"
        "\<not> list_ex isBuild d" "\<not> list_ex isHttpGet d"
        using prepareAndStart_delta by blast
      then show ?thesis using Inr Some None
        by (simp add: restartApp_def buildCalls_def list_ex_iff filter_empty_conv[THEN iffD2])
    next
      case (Some a)
      then show ?thesis using Inr \<open>proc = Some p\<close>
        by (simp add: restartApp_def buildCalls_def)
    qed
  qed
qed

lemma tickAssets_rebuild: "rebuild (fst (tickAssets e c s t)) = rebuild s"
  by (auto simp: tickAssets_def resolveAssetDir_def Let_def split: sum.splits prod.splits)

lemma tickReload_rebuild: "rebuild (fst (tickReload e c s t)) = rebuild s"
  by (auto simp: tickReload_def Let_def split: sum.splits prod.splits)

lemma tickAssets_proc: "debugBinaryProcess (fst (tickAssets e c s t)) = debugBinaryProcess s"
  by (auto simp: tickAssets_def resolveAssetDir_def Let_def split: sum.splits prod.splits)

lemma tickReload_proc: "debugBinaryProcess (fst (tickReload e c s t)) = debugBinaryProcess s"
  by (auto simp: tickReload_def Let_def split: sum.splits prod.splits)

lemma tickAssets_quiet:
  "\<exists>d. snd (tickAssets e c s t) = t @ d \<and> \<not> list_ex isKill d \<and> \<not> list_ex isStart d"
  by (auto simp: tickAssets_def resolveAssetDir_def Let_def split: sum.splits prod.splits)

lemma tickReload_quiet:
  "\<exists>d. snd (tickReload e c s t) = t @ d \<and> \<not> list_ex isKill d \<and> \<not> list_ex isStart d"
  by (auto simp: tickReload_def Let_def split: sum.splits prod.splits)

text \<open>
After the rebuild step, the tick is the asset step followed by the reload step.
\<close>

lemma timerTick_Next:
  assumes "tickRebuild e c s t = (Return (Next s1), t1)"
  shows "timerTick e c s t =
           (Return (fst (tickReload e c (fst (tickAssets e c s1 t1)) (snd (tickAssets e c s1 t1)))),
            snd (tickReload e c (fst (tickAssets e c s1 t1)) (snd (tickAssets e c s1 t1))))"
  using assms by (simp add: timerTick_def split: prod.splits)


lemma tickRebuild_cases:
  "(\<exists>t1. tickRebuild e c s t = (Fatal, t1)) \<or>
   (\<exists>s1 t1. tickRebuild e c s t = (Return (Next s1), t1) \<and> \<not> rebuild s1)"
proof (cases "rebuild s \<and> \<not> NoGoRebuild (flags c)")
  case False
  then show ?thesis by (auto simp: tickRebuild_def Let_def)
next
  case True
  obtain r t1 where r: "restartApp e (buildOptions c) (debugBinaryProcess s) (flags c)
                      (t @ [ELog ''[Rebuild triggered] files updated'' []]) = (r, t1)"
    by (cases "restartApp e (buildOptions c) (debugBinaryProcess s) (flags c)
                      (t @ [ELog ''[Rebuild triggered] files updated'' []])") 
  show ?thesis
  proof (cases r)
    case Fatal
    then show ?thesis using True r by (simp add: tickRebuild_def Let_def)
  next
    case (Return x)
    obtain np b er where x: "x = (np, b, er)" by (cases x)
    have "er = None" using r Return x restartApp_no_error[of e _ _ _ _ np b] by (cases er) auto
    then show ?thesis using True r Return x by (simp add: tickRebuild_def Let_def)
  qed
qed

lemma tickRebuild_delta:
  "\<exists>d. snd (tickRebuild e c s t) = t @ d
       \<and> buildCalls d = (if rebuild s \<and> \<not> NoGoRebuild (flags c) then 1 else 0)
       \<and> \<not> list_ex isHttpGet d"
proof (cases "rebuild s \<and> \<not> NoGoRebuild (flags c)")
  case False
  then show ?thesis by (auto simp: tickRebuild_def Let_def buildCalls_def)
next
  case True
  let ?t0 = "t @ [ELog ''[Rebuild triggered] files updated'' []]"
  obtain d where d: "snd (restartApp e (buildOptions c) (debugBinaryProcess s) (flags c) ?t0) = ?t0 @ d"
     "buildCalls d = 1" "\<not> list_ex isHttpGet d"
    using restartApp_delta by blast
  obtain r t1 where r: "restartApp e (buildOptions c) (debugBinaryProcess s) (flags c) ?t0 = (r, t1)"
    by (cases "restartApp e (buildOptions c) (debugBinaryProcess s) (flags c) ?t0") 
  have t1: "t1 = ?t0 @ d" using d r by simp
  have "snd (tickRebuild e c s t) = t1"
    using True r restartApp_no_error[of e "buildOptions c" "debugBinaryProcess s" "flags c" ?t0]
    by (auto simp: tickRebuild_def Let_def split: outcome.splits prod.splits option.splits)
  then have "snd (tickRebuild e c s t) = t @ (ELog ''[Rebuild triggered] files updated'' [] # d)"
    using t1 by simp
  moreover have "buildCalls (ELog ''[Rebuild triggered] files updated'' [] # d) = 1"
    using d by (simp add: buildCalls_def)
  moreover have "\<not> list_ex isHttpGet (ELog ''[Rebuild triggered] files updated'' [] # d)"
    using d by simp
  ultimately show ?thesis using True by auto
qed

lemma matchReloadDirs_none:
  "\<forall>d\<in>set dirs. \<not> HasPrefix n d \<Longrightarrow> matchReloadDirs n dirs r = r"
  by (induction dirs) auto

lemma matchReloadDirs_hit:
  "D \<in> set dirs \<Longrightarrow> HasPrefix n D \<Longrightarrow> matchReloadDirs n dirs r"
  by (induction dirs) auto

lemma handleCreate_keeps:
  "fst (handleCreate e c op n s t) = Return s' \<Longrightarrow>
     changedPaths s' = changedPaths s \<and> reload s' = reload s"
  by (auto simp: handleCreate_def split: if_splits option.splits)

lemma handleCreate_no_create:
  "op AND Create \<noteq> Create \<Longrightarrow> handleCreate e c op n s t = (Return s, t)"
  by (simp add: handleCreate_def)

lemma handleWrite_no_write:
  "op AND Write \<noteq> Write \<Longrightarrow> handleWrite e c op n s t = (Next s, t)"
  by (simp add: handleWrite_def)


lemma httpOrLog_facts:
  "list_all isHttpOrLog d \<Longrightarrow>
     \<not> list_ex isBuild d \<and> \<not> list_ex isKill d \<and> \<not> list_ex isStart d \<and> watcherAdds d = []"
  by (induction d rule: watcherAdds.induct) (auto simp: isHttpOrLog_def)

lemma buildCalls_append: "buildCalls (a @ b) = buildCalls a + buildCalls b"
  by (simp add: buildCalls_def)

lemma buildCalls_none: "\<not> list_ex isBuild d \<Longrightarrow> buildCalls d = 0"
  by (simp add: buildCalls_def list_ex_iff)

lemma tickAssets_httplog:
  "\<exists>d. snd (tickAssets e c s t) = t @ d \<and> list_all isHttpOrLog d"
  by (auto simp: tickAssets_def resolveAssetDir_def Let_def isHttpOrLog_def
           split: sum.splits prod.splits)

lemma tickReload_httplog:
  "\<exists>d. snd (tickReload e c s t) = t @ d \<and> list_all isHttpOrLog d"
  by (auto simp: tickReload_def Let_def isHttpOrLog_def split: sum.splits prod.splits)

text \<open>
The calls of a tick: those of the rebuild step, then only HTTP requests and log lines.
\<close>

lemma timerTick_split:
  "\<exists>d1 d2. snd (tickRebuild e c s t) = t @ d1 \<and> snd (timerTick e c s t) = t @ d1 @ d2
           \<and> list_all isHttpOrLog d2"
proof -
  obtain d1 where d1: "snd (tickRebuild e c s t) = t @ d1"
    using tickRebuild_delta by blast
  consider (f) t1 where "tickRebuild e c s t = (Fatal, t1)"
    | (n) s1 t1 where "tickRebuild e c s t = (Return (Next s1), t1)"
    using tickRebuild_cases by blast
  then show ?thesis
  proof cases
    case f
    then have "snd (timerTick e c s t) = t @ d1 @ []" using d1 by (simp add: timerTick_def)
    moreover have "list_all isHttpOrLog []" by simp
    ultimately show ?thesis using d1 by blast
  next
    case n
    then have t1: "t1 = t @ d1" using d1 by simp
    obtain da where da: "snd (tickAssets e c s1 t1) = t1 @ da" "list_all isHttpOrLog da"
      using tickAssets_httplog by blast
    obtain dr where dr: "snd (tickReload e c (fst (tickAssets e c s1 t1)) (snd (tickAssets e c s1 t1)))
                           = snd (tickAssets e c s1 t1) @ dr" "list_all isHttpOrLog dr"
      using tickReload_httplog by blast
    have "snd (timerTick e c s t) = t @ d1 @ (da @ dr)"
      using timerTick_Next[OF n] da dr t1 by simp
    moreover have "list_all isHttpOrLog (da @ dr)" using da dr by simp
    ultimately show ?thesis using d1 by blast
  qed
qed











lemma tickAssets_keeps: 
  "quit (fst (tickAssets e c s t)) = quit s \<and> (reload s \<longrightarrow> reload (fst (tickAssets e c s t)))"
  by (auto simp: tickAssets_def resolveAssetDir_def Let_def split: sum.splits prod.splits)

lemma tickReload_keeps:
  "quit (fst (tickReload e c s t)) = quit s \<and> \<not> reload (fst (tickReload e c s t))"
  by (auto simp: tickReload_def Let_def split: sum.splits prod.splits)


lemma tickRebuild_keeps:
  "tickRebuild e c s t = (Return (Next s1), t1) \<Longrightarrow> quit s1 = quit s \<and> reload s1 = reload s"
  by (auto simp: tickRebuild_def Let_def split: if_splits prod.splits outcome.splits option.splits)


lemma timerTick_state:
  assumes "fst (timerTick e c s t) = Return s'"
  shows "\<not> rebuild s' \<and> \<not> reload s' \<and> quit s' = quit s"
proof -
  consider (f) t1 where "tickRebuild e c s t = (Fatal, t1)"
    | (n) s1 t1 where "tickRebuild e c s t = (Return (Next s1), t1)" "\<not> rebuild s1"
    using tickRebuild_cases by blast
  then show ?thesis
  proof cases
    case f
    then show ?thesis using assms by (simp add: timerTick_def)
  next
    case n
    let ?a = "tickAssets e c s1 t1"
    have "s' = fst (tickReload e c (fst ?a) (snd ?a))"
      using timerTick_Next[OF n(1)] assms by simp
    then show ?thesis
      using tickReload_keeps[of e c "fst ?a" "snd ?a"] tickReload_rebuild[of e c "fst ?a" "snd ?a"]
        tickAssets_keeps[of e c s1 t1] tickAssets_rebuild[of e c s1 t1] tickRebuild_keeps[OF n(1)] n(2)
      by simp
  qed
qed

lemma timerTick_builds:
  "\<exists>d. snd (timerTick e c s t) = t @ d
       \<and> buildCalls d = (if rebuild s \<and> \<not> NoGoRebuild (flags c) then 1 else 0)"
proof -
  obtain d1 d2 where s: "snd (tickRebuild e c s t) = t @ d1" "snd (timerTick e c s t) = t @ d1 @ d2"
      "list_all isHttpOrLog d2"
    using timerTick_split by blast
  obtain d where "snd (tickRebuild e c s t) = t @ d"
      "buildCalls d = (if rebuild s \<and> \<not> NoGoRebuild (flags c) then 1 else 0)"
    using tickRebuild_delta by blast
  then have "buildCalls d1 = (if rebuild s \<and> \<not> NoGoRebuild (flags c) then 1 else 0)"
    using s by simp
  moreover have "buildCalls d2 = 0" using s httpOrLog_facts buildCalls_none by blast
  ultimately have "buildCalls (d1 @ d2) = (if rebuild s \<and> \<not> NoGoRebuild (flags c) then 1 else 0)"
    by (simp add: buildCalls_append)
  then show ?thesis using s by blast
qed

subsection \<open>Build failures\<close>

text \<open>
  Claim C1. When the builder fails, restartApp returns a nil process, an empty binary
  path and a nil error, and its only calls are the build and two log lines. A debounce
  tick whose rebuild fails in this way returns with the process handle it had before
  (the same record, so the same PID and command), and neither kills nor starts a process.
\<close>

theorem restartApp_build_failure_keeps_application:
  "(build_Build e t0 opts = Inl err \<longrightarrow>
      fst (restartApp e opts proc f t0) = Return (None, [], None)
      \<and> (\<exists>msg. snd (restartApp e opts proc f t0)
                  = t0 @ [EBuild opts, ELog (''Build error - '' @ Error err) [], ELog msg []]))
   \<and> (rebuild s \<and> \<not> NoGoRebuild (flags c)
      \<and> build_Build e (t @ [ELog ''[Rebuild triggered] files updated'' []]) (buildOptions c) = Inl err \<longrightarrow>
      (\<exists>s' d. timerTick e c s t = (Return s', t @ d)
             \<and> debugBinaryProcess s' = debugBinaryProcess s
             \<and> \<not> list_ex isKill d \<and> \<not> list_ex isStart d))"
proof (intro conjI impI)
  assume "build_Build e t0 opts = Inl err"
  then show "fst (restartApp e opts proc f t0) = Return (None, [], None)"
    by (simp add: restartApp_def)
next
  assume "build_Build e t0 opts = Inl err"
  then show "\<exists>msg. snd (restartApp e opts proc f t0)
                  = t0 @ [EBuild opts, ELog (''Build error - '' @ Error err) [], ELog msg []]"
    by (simp add: restartApp_def)
next
  let ?t0 = "t @ [ELog ''[Rebuild triggered] files updated'' []]"
  assume a: "rebuild s \<and> \<not> NoGoRebuild (flags c) \<and> build_Build e ?t0 (buildOptions c) = Inl err"
  define s1 where "s1 = s\<lparr>rebuild := False\<rparr>"
  obtain msg where r: "restartApp e (buildOptions c) (debugBinaryProcess s) (flags c) ?t0
            = (Return (None, [], None),
               ?t0 @ [EBuild (buildOptions c), ELog (''Build error - '' @ Error err) [], ELog msg []])"
    using a restartApp_build_fails by blast
  let ?t1 = "?t0 @ [EBuild (buildOptions c), ELog (''Build error - '' @ Error err) [], ELog msg []]"
  have tr: "tickRebuild e c s t = (Return (Next s1), ?t1)"
    using a r by (simp add: tickRebuild_def Let_def s1_def)
  obtain s2 t2 where ta: "tickAssets e c s1 ?t1 = (s2, t2)" by (cases "tickAssets e c s1 ?t1")
  obtain s3 t3 where tl: "tickReload e c s2 t2 = (s3, t3)" by (cases "tickReload e c s2 t2")
  have p2: "debugBinaryProcess s2 = debugBinaryProcess s"
    using tickAssets_proc[of e c s1 ?t1] ta by (simp add: s1_def)
  have p3: "debugBinaryProcess s3 = debugBinaryProcess s"
    using tickReload_proc[of e c s2 t2] tl p2 by simp
  obtain d2 where d2: "t2 = ?t1 @ d2" "\<not> list_ex isKill d2" "\<not> list_ex isStart d2"
    using tickAssets_quiet[of e c s1 ?t1] ta by auto
  obtain d3 where d3: "t3 = t2 @ d3" "\<not> list_ex isKill d3" "\<not> list_ex isStart d3"
    using tickReload_quiet[of e c s2 t2] tl by auto
  have "timerTick e c s t = (Return s3, t3)"
    using timerTick_Next[OF tr] ta tl by simp
  moreover have "t3 = t @ ([ELog ''[Rebuild triggered] files updated'' [], EBuild (buildOptions c),
                   ELog (''Build error - '' @ Error err) [], ELog msg []] @ d2 @ d3)"
    using d2 d3 by simp
  moreover have "\<not> list_ex isKill ([ELog ''[Rebuild triggered] files updated'' [], EBuild (buildOptions c),
                   ELog (''Build error - '' @ Error err) [], ELog msg []] @ d2 @ d3)"
    using d2 d3 by simp
  moreover have "\<not> list_ex isStart ([ELog ''[Rebuild triggered] files updated'' [], EBuild (buildOptions c),
                   ELog (''Build error - '' @ Error err) [], ELog msg []] @ d2 @ d3)"
    using d2 d3 by simp
  ultimately show "\<exists>s' d. timerTick e c s t = (Return s', t @ d)
             \<and> debugBinaryProcess s' = debugBinaryProcess s
             \<and> \<not> list_ex isKill d \<and> \<not> list_ex isStart d"
    using p3 by blast
qed

theorem restartApp_build_failure_keeps_application_witness:
  "fst (restartApp failingBuildEnv devOptions (Some oldApp) devFlags []) = Return (None, [], None)
   \<and> (\<exists>s' d. timerTick failingBuildEnv (devConfig devFlags)
                  ((initialState (Some oldApp))\<lparr>rebuild := True\<rparr>) [] = (Return s', d)
            \<and> debugBinaryProcess s' = Some oldApp
            \<and> \<not> list_ex isKill d \<and> \<not> list_ex isStart d)"
  using restartApp_build_failure_keeps_application
          [of failingBuildEnv "[]" devOptions "Err ''exit status 2''" "Some oldApp" devFlags
              "(initialState (Some oldApp))\<lparr>rebuild := True\<rparr>" "devConfig devFlags" "[]"]
  by (simp add: failingBuildEnv_def calmEnv_def devConfig_simps devFlags_def initialState_def)

subsection \<open>Kill before delete\<close>

text \<open>
  Claim C2. For a running process and a non-empty binary path: when Kill returns an
  error, killProcessAndCleanupBinary returns that error and its only call is the Kill;
  when Kill succeeds, the calls are the Kill and then the removal of the binary.
\<close>

theorem killProcessAndCleanupBinary_kill_before_delete:
  assumes "Running p" and "binary \<noteq> []"
  shows "(process_Kill e t p = Some err \<longrightarrow>
            killProcessAndCleanupBinary e (Some p) binary t = (Some err, t @ [EKill p]))
       \<and> (process_Kill e t p = None \<longrightarrow>
            snd (killProcessAndCleanupBinary e (Some p) binary t) = t @ [EKill p, ERemove binary])"
  using assms by (auto simp: killProcessAndCleanupBinary_def split: option.splits)

theorem killProcessAndCleanupBinary_kill_before_delete_witness:
  "killProcessAndCleanupBinary (calmEnv\<lparr>process_Kill := (\<lambda>t p. Some (Err ''operation not permitted''))\<rparr>)
       (Some oldApp) ''/p/bin/app'' []
     = (Some (Err ''operation not permitted''), [EKill oldApp])
   \<and> snd (killProcessAndCleanupBinary calmEnv (Some oldApp) ''/p/bin/app'' [])
     = [EKill oldApp, ERemove ''/p/bin/app'']"
  using killProcessAndCleanupBinary_kill_before_delete
          [of oldApp "''/p/bin/app''"
              "calmEnv\<lparr>process_Kill := (\<lambda>t p. Some (Err ''operation not permitted''))\<rparr>" "[]"
              "Err ''operation not permitted''"]
        killProcessAndCleanupBinary_kill_before_delete
          [of oldApp "''/p/bin/app''" calmEnv "[]"]
  by (simp add: oldApp_def calmEnv_def)

subsection \<open>Coalescing of write events\<close>

lemma eligible_write_step:
  assumes "op AND Write = Write" and "\<not> fs_DirExists e t n" and "isEligibleFile c n"
  shows "loopIteration e c (WatcherEvent op n) s t
           = (Return (s\<lparr>rebuild := True\<rparr>), t @ [EDirExists n, ETimerReset])"
  using assms by (simp add: handleEvent_def handleWrite_def)

text \<open>
A burst of eligible writes leaves the rebuild flag set and one timer reset per event.
\<close>

lemma mainLoop_writes:
  assumes "\<forall>x\<in>set items. fst x AND Write = Write \<and> isEligibleFile c (snd x)
                           \<and> (\<forall>h. \<not> fs_DirExists e h (snd x))"
    and "\<not> quit s"
  shows "mainLoop e c (map (\<lambda>x. WatcherEvent (fst x) (snd x)) items @ rest) s t
           = mainLoop e c rest (if items = [] then s else s\<lparr>rebuild := True\<rparr>)
               (t @ concat (map (\<lambda>x. [EDirExists (snd x), ETimerReset]) items))"
  using assms
proof (induction items arbitrary: s t)
  case Nil
  then show ?case by simp
next
  case (Cons x items)
  have step: "loopIteration e c (WatcherEvent (fst x) (snd x)) s t
                = (Return (s\<lparr>rebuild := True\<rparr>), t @ [EDirExists (snd x), ETimerReset])"
    using Cons.prems by (intro eligible_write_step) auto
  have "mainLoop e c (map (\<lambda>x. WatcherEvent (fst x) (snd x)) items @ rest) (s\<lparr>rebuild := True\<rparr>)
            (t @ [EDirExists (snd x), ETimerReset])
          = mainLoop e c rest (if items = [] then s\<lparr>rebuild := True\<rparr> else s\<lparr>rebuild := True\<rparr>\<lparr>rebuild := True\<rparr>)
              ((t @ [EDirExists (snd x), ETimerReset])
                 @ concat (map (\<lambda>x. [EDirExists (snd x), ETimerReset]) items))"
    using Cons.prems by (intro Cons.IH) auto
  then show ?case using step Cons.prems by simp
qed

text \<open>
  Claim C3, as stated, fails when the flag \<open>-nogorebuild\<close> is set: the tick clears
  the rebuild flag and logs that the rebuild is skipped, and the builder is not invoked.
\<close>

theorem no_rebuild_override_counterexample:
  "Write AND Write = Write
   \<and> isEligibleFile (devConfig (devFlags\<lparr>NoGoRebuild := True\<rparr>)) ''/p/main.go''
   \<and> \<not> fs_DirExists calmEnv [] ''/p/main.go''
   \<and> mainLoop calmEnv (devConfig (devFlags\<lparr>NoGoRebuild := True\<rparr>))
        [WatcherEvent Write ''/p/main.go'', TimerC] (initialState None) []
       = (Waiting (initialState None),
          [EDirExists ''/p/main.go'', ETimerReset,
           ELog ''[Rebuild triggered] skipping due to flag -nogorebuild'' []])
   \<and> buildCalls [EDirExists ''/p/main.go'', ETimerReset,
                  ELog ''[Rebuild triggered] skipping due to flag -nogorebuild'' []] \<noteq> 1"
  by (simp add: calmEnv_def devConfig_def makeConfig_def devFlags_def initialState_def
        isEligibleFile_def Ext_def handleEvent_def handleWrite_def buildCalls_def
        timerTick_def tickRebuild_def tickAssets_def tickReload_def)

text \<open>
  Claim C3, amended. For one or more write events to paths that are not directories and
  whose extension triggers a rebuild: each event sets the rebuild flag and resets the
  timer once; after the events the loop waits with the flag set; and when the timer then
  fires the builder is invoked exactly once, or not at all when \<open>NoGoRebuild\<close> is
  set, and the flag is cleared unless the rebuild ended the process.
\<close>

theorem burst_of_writes_coalesces:
  assumes "items \<noteq> []"
    and "\<forall>x\<in>set items. fst x AND Write = Write \<and> isEligibleFile c (snd x)
                           \<and> (\<forall>h. \<not> fs_DirExists e h (snd x))"
    and "\<not> quit s"
  shows "(\<forall>x\<in>set items. \<forall>s0 t0.
            loopIteration e c (WatcherEvent (fst x) (snd x)) s0 t0
              = (Return (s0\<lparr>rebuild := True\<rparr>), t0 @ [EDirExists (snd x), ETimerReset]))
       \<and> mainLoop e c (map (\<lambda>x. WatcherEvent (fst x) (snd x)) items) s t
           = (Waiting (s\<lparr>rebuild := True\<rparr>),
              t @ concat (map (\<lambda>x. [EDirExists (snd x), ETimerReset]) items))
       \<and> (\<exists>r d. mainLoop e c (map (\<lambda>x. WatcherEvent (fst x) (snd x)) items @ [TimerC]) s t
                   = (r, t @ concat (map (\<lambda>x. [EDirExists (snd x), ETimerReset]) items) @ d)
               \<and> buildCalls d = (if NoGoRebuild (flags c) then 0 else 1)
               \<and> (r = Halted \<or> (\<exists>s'. r = Waiting s' \<and> \<not> rebuild s')))"
proof (intro conjI)
  show "\<forall>x\<in>set items. \<forall>s0 t0.
            loopIteration e c (WatcherEvent (fst x) (snd x)) s0 t0
              = (Return (s0\<lparr>rebuild := True\<rparr>), t0 @ [EDirExists (snd x), ETimerReset])"
    using assms(2) eligible_write_step by blast
next
  show "mainLoop e c (map (\<lambda>x. WatcherEvent (fst x) (snd x)) items) s t
           = (Waiting (s\<lparr>rebuild := True\<rparr>),
              t @ concat (map (\<lambda>x. [EDirExists (snd x), ETimerReset]) items))"
    using mainLoop_writes[OF assms(2,3), of "[]" t] assms(1,3) by simp
next
  let ?s1 = "s\<lparr>rebuild := True\<rparr>"
  let ?t1 = "t @ concat (map (\<lambda>x. [EDirExists (snd x), ETimerReset]) items)"
  have run: "mainLoop e c (map (\<lambda>x. WatcherEvent (fst x) (snd x)) items @ [TimerC]) s t
               = mainLoop e c [TimerC] ?s1 ?t1"
    using mainLoop_writes[OF assms(2,3), of "[TimerC]" t] assms(1) by simp
  obtain d where d: "snd (timerTick e c ?s1 ?t1) = ?t1 @ d"
      "buildCalls d = (if rebuild ?s1 \<and> \<not> NoGoRebuild (flags c) then 1 else 0)"
    using timerTick_builds by blast
  obtain r t2 where tk: "timerTick e c ?s1 ?t1 = (r, t2)" by (cases "timerTick e c ?s1 ?t1")
  have t2: "t2 = ?t1 @ d" using d tk by simp
  have bc: "buildCalls d = (if NoGoRebuild (flags c) then 0 else 1)" using d by simp
  show "\<exists>r d. mainLoop e c (map (\<lambda>x. WatcherEvent (fst x) (snd x)) items @ [TimerC]) s t
                   = (r, t @ concat (map (\<lambda>x. [EDirExists (snd x), ETimerReset]) items) @ d)
               \<and> buildCalls d = (if NoGoRebuild (flags c) then 0 else 1)
               \<and> (r = Halted \<or> (\<exists>s'. r = Waiting s' \<and> \<not> rebuild s'))"
  proof (cases r)
    case Fatal
    then have "mainLoop e c [TimerC] ?s1 ?t1 = (Halted, ?t1 @ d)"
      using tk t2 assms(3) by simp
    then show ?thesis using run bc by auto
  next
    case (Return s2)
    then have st: "\<not> rebuild s2 \<and> quit s2 = quit ?s1"
      using timerTick_state[of e c ?s1 ?t1 s2] tk by simp
    then have "mainLoop e c [TimerC] ?s1 ?t1 = (Waiting s2, ?t1 @ d)"
      using tk t2 Return assms(3) by simp
    then show ?thesis using run bc st by auto
  qed
qed

theorem burst_of_writes_coalesces_witness:
  "mainLoop calmEnv (devConfig devFlags)
       [WatcherEvent Write ''/p/main.go'', WatcherEvent Write ''/p/x.go''] (initialState None) []
     = (Waiting ((initialState None)\<lparr>rebuild := True\<rparr>),
        [EDirExists ''/p/main.go'', ETimerReset, EDirExists ''/p/x.go'', ETimerReset])
   \<and> (\<exists>r d. mainLoop calmEnv (devConfig devFlags)
               [WatcherEvent Write ''/p/main.go'', WatcherEvent Write ''/p/x.go'', TimerC]
               (initialState None) []
             = (r, [EDirExists ''/p/main.go'', ETimerReset, EDirExists ''/p/x.go'', ETimerReset] @ d)
          \<and> buildCalls d = 1
          \<and> (r = Halted \<or> (\<exists>s'. r = Waiting s' \<and> \<not> rebuild s')))"
proof -
  have items: "\<forall>x\<in>set [(Write, ''/p/main.go''), (Write, ''/p/x.go'')].
                 fst x AND Write = Write \<and> isEligibleFile (devConfig devFlags) (snd x)
                 \<and> (\<forall>h. \<not> fs_DirExists calmEnv h (snd x))"
    by (simp add: isEligibleFile_def devConfig_simps devFlags_def Ext_def calmEnv_def)
  have q: "\<not> quit (initialState None)" by (simp add: initialState_def)
  have n: "\<not> NoGoRebuild (flags (devConfig devFlags))" by (simp add: devConfig_simps devFlags_def)
  show ?thesis
    using burst_of_writes_coalesces
            [where items = "[(Write, ''/p/main.go''), (Write, ''/p/x.go'')]"
               and c = "devConfig devFlags" and e = calmEnv and s = "initialState None" and t = "[]",
             OF _ items q] n
    by simp
qed

subsection \<open>Order within a tick\<close>





subsection \<open>Exit codes\<close>

text \<open>
  Claim C5. An exit code received while the loop runs sets \<open>quit\<close> exactly when it is
  zero and calls nothing. After exit code zero the loop leaves without handling any
  further event; after any other code it goes on with the remaining events.
\<close>

theorem exit_code_zero_quits:
  assumes "\<not> quit s"
  shows "(\<exists>s'. loopIteration e c (ExitCode exitCode) s t = (Return s', t)
              \<and> (quit s' \<longleftrightarrow> exitCode = 0))
       \<and> (exitCode = 0 \<longrightarrow>
            mainLoop e c (ExitCode exitCode # evs) s t = (Exited (s\<lparr>quit := True\<rparr>), t))
       \<and> (exitCode \<noteq> 0 \<longrightarrow>
            mainLoop e c (ExitCode exitCode # evs) s t = mainLoop e c evs s t)"
  using assms by (cases evs) auto

theorem exit_code_zero_quits_witness:
  "mainLoop calmEnv (devConfig devFlags) [ExitCode 0, TimerC] (initialState None) []
     = (Exited ((initialState None)\<lparr>quit := True\<rparr>), [])
   \<and> mainLoop calmEnv (devConfig devFlags) [ExitCode 2] ((initialState None)\<lparr>rebuild := True\<rparr>) []
     = (Waiting ((initialState None)\<lparr>rebuild := True\<rparr>), [])"
  using exit_code_zero_quits [of "initialState None" calmEnv "devConfig devFlags" 0 "[]" "[TimerC]"]
        exit_code_zero_quits [of "(initialState None)\<lparr>rebuild := True\<rparr>" calmEnv
                                 "devConfig devFlags" 2 "[]" "[]"]
  by (simp add: initialState_def)

subsection \<open>The closer of the frontend watcher\<close>

lemma inFlight_update:
  "i < length cs \<Longrightarrow>
     inFlight (cs[i := pc]) + (if cs ! i = AtKillProc then 1 else 0)
       = inFlight cs + (if pc = AtKillProc then 1 else 0)"
proof (induction cs arbitrary: i)
  case Nil
  then show ?case by simp
next
  case (Cons a cs)
  show ?case
  proof (cases i)
    case 0
    then show ?thesis by (simp add: inFlight_def)
  next
    case (Suc k)
    then have "k < length cs" using Cons.prems by simp
    from Cons.IH[OF this] show ?thesis using Suc
      by (auto simp: inFlight_def split: if_splits)
  qed
qed

lemma killProcCalls_snoc:
  "killProcCalls (t @ [x]) = killProcCalls t + (case x of EKillProc d \<Rightarrow> 1 | _ \<Rightarrow> 0)"
  by (cases x) (simp_all add: killProcCalls_def)

lemma states_differ:
  "stateCanceling \<noteq> stateRunning" "stateStopped \<noteq> stateRunning"
  by (simp_all add: stateCanceling_def stateStopped_def stateRunning_def)

lemma closerStep_signalOnce:
  assumes "signalOnce w"
  shows "signalOnce (closerStep devCommand i w)"
proof (cases "i < length (closers w)")
  case False
  then show ?thesis using assms by (simp add: closerStep_def)
next
  case True
  note upd = inFlight_update[OF True]
  show ?thesis
  proof (cases "closers w ! i")
    case AtCompareAndSwap
    then show ?thesis
      using assms True upd[of AtKillProc] upd[of AtCancel]
      by (auto simp: closerStep_def signalOnce_def states_differ)
  next
    case AtKillProc
    then show ?thesis
      using assms True upd[of AtCancel]
      by (auto simp: closerStep_def signalOnce_def killProcCalls_snoc)
  next
    case AtCancel
    then show ?thesis
      using assms True upd[of AtWgWait]
      by (auto simp: closerStep_def signalOnce_def killProcCalls_snoc)
  next
    case AtWgWait
    then show ?thesis
      using assms True upd[of CloserDone]
      by (auto simp: closerStep_def signalOnce_def)
  next
    case CloserDone
    then show ?thesis using assms True by (simp add: closerStep_def)
  qed
qed

lemma waiterStep_signalOnce:
  assumes "signalOnce w"
  shows "signalOnce (waiterStep devCommand waitErr w)"
  using assms
  by (cases "waiter w")
     (auto simp: waiterStep_def signalOnce_def killProcCalls_snoc states_differ
           split: option.splits)

lemma runSchedule_signalOnce:
  "signalOnce w \<Longrightarrow> signalOnce (runSchedule devCommand waitErr sched w)"
proof (induction sched arbitrary: w)
  case Nil
  then show ?case by simp
next
  case (Cons th sched)
  have "signalOnce (threadStep devCommand waitErr th w)"
    using Cons.prems by (cases th) (simp_all add: closerStep_signalOnce waiterStep_signalOnce)
  then show ?case using Cons.IH by simp
qed

lemma watcherStart_signalOnce: "signalOnce (watcherStart n)"
  by (simp add: signalOnce_def watcherStart_def killProcCalls_def inFlight_def)

lemma two_closers_example:
  "effects (runSchedule ''npm run dev'' (Some (Err ''signal: killed''))
       [Closer 0, Closer 1, Closer 1, Closer 0, Closer 1, Closer 0, ExitWatcher, ExitWatcher,
        ExitWatcher, ExitWatcher, ExitWatcher, Closer 0, Closer 1]
       (watcherStart 2))
     = [ECancel, EKillProc ''npm run dev'', ECancel]"
  by (simp add: watcherStart_def closerStep_def waiterStep_def stateRunning_def stateCanceling_def
        stateStopped_def)

text \<open>
  Claim C6. Whatever the number of invocations of the closer, the result of
  \<open>cmd.Wait\<close> and the interleaving of the atomic steps, killProc is called at most
  once: only a successful compare-and-swap from \<open>stateRunning\<close> to
  \<open>stateCanceling\<close> leads to the call, and nothing sets \<open>state\<close> back to
  \<open>stateRunning\<close>.
\<close>

theorem termination_signal_sent_at_most_once:
  "killProcCalls (effects (runSchedule devCommand waitErr sched (watcherStart n))) \<le> 1"
  using runSchedule_signalOnce[OF watcherStart_signalOnce, of devCommand waitErr sched n]
  by (simp add: signalOnce_def)

theorem termination_signal_sent_at_most_once_witness:
  "killProcCalls (effects (runSchedule ''npm run dev'' (Some (Err ''signal: killed''))
       [Closer 0, Closer 1, Closer 1, Closer 0, Closer 1, Closer 0, ExitWatcher, ExitWatcher,
        ExitWatcher, ExitWatcher, ExitWatcher, Closer 0, Closer 1]
       (watcherStart 2))) \<le> 1
   \<and> effects (runSchedule ''npm run dev'' (Some (Err ''signal: killed''))
       [Closer 0, Closer 1, Closer 1, Closer 0, Closer 1, Closer 0, ExitWatcher, ExitWatcher,
        ExitWatcher, ExitWatcher, ExitWatcher, Closer 0, Closer 1]
       (watcherStart 2))
     = [ECancel, EKillProc ''npm run dev'', ECancel]"
  using termination_signal_sent_at_most_once
          [of "''npm run dev''" "Some (Err ''signal: killed'')"
              "[Closer 0, Closer 1, Closer 1, Closer 0, Closer 1, Closer 0, ExitWatcher, ExitWatcher,
                ExitWatcher, ExitWatcher, ExitWatcher, Closer 0, Closer 1]" 2]
        two_closers_example
  by simp

subsection \<open>Writes to other files\<close>

text \<open>
  Claim C7, as stated, fails: the test \<open>!reload\<close> of line 439 reads the reload flag
  of the loop, which stays set from an earlier event until the next tick. With reload
  directory \<open>/p/src\<close>, a write to \<open>/p/src/a.js\<close> followed by a write to
  \<open>/q/notes.txt\<close> leaves the batch of changed directories empty.
\<close>

theorem other_write_with_pending_reload_counterexample:
  "Write AND Write = Write
   \<and> \<not> fs_DirExists calmEnv [EDirExists ''/p/src/a.js'', ETimerReset] ''/q/notes.txt''
   \<and> \<not> isEligibleFile (devConfig devFlags) ''/q/notes.txt''
   \<and> dirsThatTriggerAReload (devConfig devFlags) = [''/p/src'']
   \<and> \<not> HasPrefix ''/q/notes.txt'' ''/p/src''
   \<and> mainLoop calmEnv (devConfig devFlags)
        [WatcherEvent Write ''/p/src/a.js'', WatcherEvent Write ''/q/notes.txt'']
        (initialState None) []
       = (Waiting ((initialState None)\<lparr>reload := True\<rparr>),
          [EDirExists ''/p/src/a.js'', ETimerReset, EDirExists ''/q/notes.txt'', ETimerReset])
   \<and> filepath_Dir calmEnv ''/q/notes.txt'' \<notin> changedPaths ((initialState None)\<lparr>reload := True\<rparr>)"
  by (simp add: initialState_def calmEnv_def Create_def Write_def HasPrefix_def devConfig_simps
        devFlags_def isEligibleFile_def Ext_def parentDir_def handleEvent_def handleWrite_def
        handleCreate_def)

text \<open>
  Claim C7, amended. A write to a path that is not a directory, whose extension does not
  trigger a rebuild and which no reload directory is a prefix of, puts the parent
  directory of the path into \<open>changedPaths\<close>, provided no reload is pending when
  the event is handled.
\<close>

theorem other_write_records_parent_directory:
  assumes "op AND Write = Write" and "\<not> fs_DirExists e t itemName"
    and "\<not> isEligibleFile c itemName"
    and "\<forall>d\<in>set (dirsThatTriggerAReload c). \<not> HasPrefix itemName d"
    and "\<not> reload s"
  shows "fst (handleWrite e c op itemName s t)
           = Next (s\<lparr>changedPaths := insert (filepath_Dir e itemName) (changedPaths s)\<rparr>)
       \<and> (\<forall>s'. fst (loopIteration e c (WatcherEvent op itemName) s t) = Return s'
                \<longrightarrow> filepath_Dir e itemName \<in> changedPaths s')
       \<and> (op AND Create \<noteq> Create \<longrightarrow>
            loopIteration e c (WatcherEvent op itemName) s t
              = (Return (s\<lparr>changedPaths := insert (filepath_Dir e itemName) (changedPaths s)\<rparr>),
                 t @ [EDirExists itemName, ETimerReset]))"
proof -
  let ?s2 = "s\<lparr>changedPaths := insert (filepath_Dir e itemName) (changedPaths s)\<rparr>"
  have hw: "handleWrite e c op itemName s t = (Next ?s2, t @ [EDirExists itemName, ETimerReset])"
    using assms by (simp add: handleWrite_def Let_def matchReloadDirs_none)
  have "\<forall>s'. fst (loopIteration e c (WatcherEvent op itemName) s t) = Return s'
                \<longrightarrow> filepath_Dir e itemName \<in> changedPaths s'"
    using hw handleCreate_keeps[of e c op itemName ?s2 "t @ [EDirExists itemName, ETimerReset]"]
    by (auto simp: handleEvent_def)
  moreover have "op AND Create \<noteq> Create \<longrightarrow>
            loopIteration e c (WatcherEvent op itemName) s t
              = (Return ?s2, t @ [EDirExists itemName, ETimerReset])"
    using hw by (simp add: handleEvent_def handleCreate_no_create)
  ultimately show ?thesis using hw by simp
qed

theorem other_write_records_parent_directory_witness:
  "loopIteration calmEnv (devConfig devFlags) (WatcherEvent Write ''/q/notes.txt'')
       (initialState None) []
     = (Return ((initialState None)\<lparr>changedPaths := {''/q''}\<rparr>),
        [EDirExists ''/q/notes.txt'', ETimerReset])"
  using other_write_records_parent_directory
          [of Write calmEnv "[]" "''/q/notes.txt''" "devConfig devFlags" "initialState None"]
  by (simp add: initialState_def calmEnv_def Create_def Write_def HasPrefix_def devConfig_simps
        devFlags_def isEligibleFile_def Ext_def parentDir_def)

subsection \<open>New directories\<close>



subsection \<open>Prefix matching\<close>

text \<open>
  Claim C9, as stated, fails for a written file whose extension triggers a rebuild:
  line 429 continues with the next iteration before the reload directories are looked
  at. With reload directory \<open>/p/src\<close> and rebuild extension \<open>go\<close>, a write to
  \<open>/p/src/main.go\<close> sets the rebuild flag and leaves the reload flag unset.
\<close>

theorem rebuild_extension_under_reload_directory_counterexample:
  "Write AND Write = Write
   \<and> \<not> fs_DirExists calmEnv [] ''/p/src/main.go''
   \<and> ''/p/src'' \<in> set (dirsThatTriggerAReload (devConfig devFlags))
   \<and> HasPrefix ''/p/src/main.go'' ''/p/src''
   \<and> loopIteration calmEnv (devConfig devFlags) (WatcherEvent Write ''/p/src/main.go'')
        (initialState None) []
       = (Return ((initialState None)\<lparr>rebuild := True\<rparr>),
          [EDirExists ''/p/src/main.go'', ETimerReset])
   \<and> \<not> reload ((initialState None)\<lparr>rebuild := True\<rparr>)"
  by (simp add: calmEnv_def devConfig_simps devFlags_def initialState_def HasPrefix_def
        handleEvent_def handleWrite_def isEligibleFile_def Ext_def Write_def)

text \<open>
  Claim C9, amended. A write to a path that is not a directory, whose extension does not
  trigger a rebuild and whose string begins with a reload directory, sets the reload
  flag; the comparison is strings.HasPrefix, with no separator boundary. In the same way
  a tick that looks at the changed directories sets the reload flag as soon as the
  string of one of them begins with the asset directory.
\<close>

theorem reload_directory_prefix_match:
  "(op AND Write = Write \<and> \<not> fs_DirExists e t itemName \<and> \<not> isEligibleFile c itemName
      \<and> D \<in> set (dirsThatTriggerAReload c) \<and> HasPrefix itemName D \<longrightarrow>
      handleWrite e c op itemName s t
        = (Next (s\<lparr>reload := True\<rparr>), t @ [EDirExists itemName, ETimerReset])
      \<and> (\<forall>s'. fst (loopIteration e c (WatcherEvent op itemName) s t) = Return s' \<longrightarrow> reload s')
      \<and> (op AND Create \<noteq> Create \<longrightarrow>
            loopIteration e c (WatcherEvent op itemName) s t
              = (Return (s\<lparr>reload := True\<rparr>), t @ [EDirExists itemName, ETimerReset])))
   \<and> (\<not> skipAssetsReload c \<and> assetDir s \<noteq> [] \<and> thePath \<in> changedPaths s
      \<and> HasPrefix thePath (assetDir s) \<longrightarrow>
      tickAssets e c s t = (s\<lparr>reload := True\<rparr>, t))"
proof (intro conjI impI)
  assume a: "op AND Write = Write \<and> \<not> fs_DirExists e t itemName \<and> \<not> isEligibleFile c itemName
      \<and> D \<in> set (dirsThatTriggerAReload c) \<and> HasPrefix itemName D"
  then have m: "matchReloadDirs itemName (dirsThatTriggerAReload c) (reload s)"
    using matchReloadDirs_hit by blast
  show hw: "handleWrite e c op itemName s t
              = (Next (s\<lparr>reload := True\<rparr>), t @ [EDirExists itemName, ETimerReset])"
    using a m by (simp add: handleWrite_def Let_def)
  show "\<forall>s'. fst (loopIteration e c (WatcherEvent op itemName) s t) = Return s' \<longrightarrow> reload s'"
    using hw handleCreate_keeps[of e c op itemName "s\<lparr>reload := True\<rparr>" "t @ [EDirExists itemName, ETimerReset]"]
    by (auto simp: handleEvent_def)
  assume "op AND Create \<noteq> Create"
  then show "loopIteration e c (WatcherEvent op itemName) s t
              = (Return (s\<lparr>reload := True\<rparr>), t @ [EDirExists itemName, ETimerReset])"
    using hw by (simp add: handleEvent_def handleCreate_no_create)
next
  assume "\<not> skipAssetsReload c \<and> assetDir s \<noteq> [] \<and> thePath \<in> changedPaths s
      \<and> HasPrefix thePath (assetDir s)"
  then show "tickAssets e c s t = (s\<lparr>reload := True\<rparr>, t)"
    by (auto simp: tickAssets_def resolveAssetDir_def)
qed

theorem reload_directory_prefix_match_witness:
  "HasPrefix ''/p/src-extra/a.js'' ''/p/src''
   \<and> loopIteration calmEnv (devConfig devFlags) (WatcherEvent Write ''/p/src-extra/a.js'')
       (initialState None) []
     = (Return ((initialState None)\<lparr>reload := True\<rparr>),
        [EDirExists ''/p/src-extra/a.js'', ETimerReset])
   \<and> tickAssets calmEnv (devConfig devFlags)
        ((initialState None)\<lparr>assetDir := ''/p/dist'', changedPaths := {''/p/dist-old/css''}\<rparr>) []
     = ((initialState None)\<lparr>assetDir := ''/p/dist'', changedPaths := {''/p/dist-old/css''},
                               reload := True\<rparr>, [])"
  using reload_directory_prefix_match
          [where op = Write and e = calmEnv and t = "[]" and itemName = "''/p/src-extra/a.js''"
             and c = "devConfig devFlags" and D = "''/p/src''" and s = "initialState None"]
        reload_directory_prefix_match
          [where e = calmEnv and t = "[]" and c = "devConfig devFlags"
             and s = "(initialState None)\<lparr>assetDir := ''/p/dist'', changedPaths := {''/p/dist-old/css''}\<rparr>"
             and thePath = "''/p/dist-old/css''"]
  apply (simp add: initialState_def calmEnv_def Create_def Write_def HasPrefix_def devConfig_simps
        devFlags_def isEligibleFile_def Ext_def handleEvent_def handleCreate_def)
  done

subsection \<open>Failure to watch a new directory\<close>

text \<open>
  Claim C10. When \<open>watcher.Add\<close> fails for a newly created directory, the iteration
  ends in \<open>Logger.Fatal\<close> and the loop handles no further event; an error received
  from the watcher's error channel is logged and the loop goes on with an unchanged state.
\<close>

theorem watcher_add_failure_is_fatal:
  assumes "\<not> quit s"
  shows "(op AND Create = Create \<and> op AND Write \<noteq> Write \<and> fs_DirExists e t n
          \<and> \<not> Contains n ''node_modules''
          \<and> watcher_Add e (t @ [EDirExists n]) n = Some err \<longrightarrow>
            loopIteration e c (WatcherEvent op n) s t
              = (Fatal, t @ [EDirExists n, EWatcherAdd n, EFatal ''%s'' [AStr (Error err)]])
          \<and> mainLoop e c (WatcherEvent op n # evs) s t
              = (Halted, t @ [EDirExists n, EWatcherAdd n, EFatal ''%s'' [AStr (Error err)]]))
       \<and> loopIteration e c (WatcherError werr) s t = (Return s, t @ [ELog (Error werr) []])
       \<and> mainLoop e c (WatcherError werr # evs) s t
           = mainLoop e c evs s (t @ [ELog (Error werr) []])"
  using assms by (simp add: handleEvent_def handleWrite_no_write handleCreate_def)

theorem watcher_add_failure_is_fatal_witness:
  "mainLoop failingAddEnv (devConfig devFlags) [WatcherEvent Create ''/p/new'', TimerC]
       (initialState None) []
     = (Halted, [EDirExists ''/p/new'', EWatcherAdd ''/p/new'',
                 EFatal ''%s'' [AStr ''no space left on device'']])
   \<and> mainLoop failingAddEnv (devConfig devFlags) [WatcherError (Err ''queue overflow'')]
       (initialState None) []
     = (Waiting (initialState None), [ELog ''queue overflow'' []])"
  using watcher_add_failure_is_fatal
          [where s = "initialState None" and op = Create and e = failingAddEnv and t = "[]"
             and n = "''/p/new''" and err = "Err ''no space left on device''"
             and c = "devConfig devFlags" and evs = "[TimerC]"]
        watcher_add_failure_is_fatal
          [where s = "initialState None" and e = failingAddEnv and t = "[]"
             and c = "devConfig devFlags" and evs = "[]" and werr = "Err ''queue overflow''"]
  by (simp add: initialState_def failingAddEnv_def calmEnv_def Create_def Write_def HasPrefix_def)

end
